theory Spec2Isabelle
  imports Complex_Main
begin

section \<open>JavaScript values\<close>

text \<open>
  Strings are lists of code units; every code unit of the strings handled here is below
  \<open>0x100\<close>, so a \<^typ>\<open>char\<close> stands for one. Identifiers, quantities and HTTP
  status codes are integers (\<^typ>\<open>int\<close>). A price is a finite double, given by its exact value
  (a \<^typ>\<open>rat\<close>); arithmetic on prices rounds as binary64 does, see below.
  A value that may be \<open>null\<close> or \<open>undefined\<close> is an \<^typ>\<open>'a option\<close>.
\<close>

text \<open>The white space and line terminators that \<open>String.prototype.trim\<close> strips, below \<open>0x100\<close>.\<close>

definition js_whitespace :: "char \<Rightarrow> bool" where
  "js_whitespace c =
     (c = CHR 0x09 \<or> c = CHR 0x0A \<or> c = CHR 0x0B \<or> c = CHR 0x0C \<or> c = CHR 0x0D
      \<or> c = CHR 0x20 \<or> c = CHR 0xA0)"

definition trim :: "string \<Rightarrow> string" where
  "trim s = rev (dropWhile js_whitespace (rev (dropWhile js_whitespace s)))"

text \<open>Truthiness of a \<open>string | null\<close>: \<open>null\<close> and the empty string are falsy.\<close>

fun truthy_string :: "string option \<Rightarrow> bool" where
  "truthy_string None = False"
| "truthy_string (Some s) = (s \<noteq> [])"

text \<open>Truthiness of a \<open>number | null\<close>: \<open>null\<close> and \<open>0\<close> are falsy.\<close>

fun truthy_number :: "int option \<Rightarrow> bool" where
  "truthy_number None = False"
| "truthy_number (Some n) = (n \<noteq> 0)"

text \<open>\<open>String(n)\<close> for an integer \<open>n\<close>, as a template literal \<open>`${n}`\<close> renders it.\<close>

definition digit_char :: "nat \<Rightarrow> char" where
  "digit_char d = char_of (48 + d)"

fun nat_to_string :: "nat \<Rightarrow> string" where
  "nat_to_string n =
     (if n < 10 then [digit_char n] else nat_to_string (n div 10) @ [digit_char (n mod 10)])"

definition number_to_string :: "int \<Rightarrow> string" where
  "number_to_string n =
     (if n < 0 then CHR ''-'' # nat_to_string (nat (- n)) else nat_to_string (nat n))"

text \<open>\<open>Array.prototype.join\<close> on an array of strings.\<close>

fun join :: "string \<Rightarrow> string list \<Rightarrow> string" where
  "join sep [] = []"
| "join sep [x] = x"
| "join sep (x # y # ys) = x @ sep @ join sep (y # ys)"

subsection \<open>Double arithmetic\<close>

text \<open>
  The result of an arithmetic operation on doubles is the exact result rounded to the
  nearest double, ties to the even significand (IEEE 754 binary64, the \<open>Number\<close> type).
  \<open>round_half_even\<close> rounds to an integer. \<open>exponent a\<close> is, for \<open>a > 0\<close>, the binary exponent
  of \<open>a\<close>, held at \<open>-1022\<close> from below (the subnormal range) and at \<open>1024\<close> from above.
  \<open>round_double x\<close> is the double nearest to \<open>x\<close>, or \<open>None\<close> where the rounded magnitude
  reaches \<open>2^1024\<close> and JavaScript yields an infinity. The two zeros are one value.
\<close>

definition round_half_even :: "rat \<Rightarrow> int" where
  "round_half_even x =
     (let f = \<lfloor>x\<rfloor>; d = x - of_int f
      in if d < 1 / 2 then f else if 1 / 2 < d then f + 1 else if even f then f else f + 1)"

function scale_down :: "rat \<Rightarrow> int \<Rightarrow> int" where
  "scale_down a e = (if 2 \<le> a \<and> e < 1024 then scale_down (a / 2) (e + 1) else e)"
  by pat_completeness auto
termination
  by (relation "measure (\<lambda>(a, e). nat (1024 - e))") auto

function scale_up :: "rat \<Rightarrow> int \<Rightarrow> int" where
  "scale_up a e = (if a < 1 \<and> - 1022 < e then scale_up (a * 2) (e - 1) else e)"
  by pat_completeness auto
termination
  by (relation "measure (\<lambda>(a, e). nat (e + 1022))") auto

declare scale_down.simps [simp del] scale_up.simps [simp del]

definition exponent :: "rat \<Rightarrow> int" where
  "exponent a = (if 1 \<le> a then scale_down a 0 else scale_up a 0)"

definition round_double :: "rat \<Rightarrow> rat option" where
  "round_double x =
     (if x = 0 then Some 0
      else
        (let a = \<bar>x\<bar>;
             q = 2 powi (exponent a - 52);
             r = of_int (round_half_even (a / q)) * q
         in if 2 powi 1024 \<le> r then None else Some (sgn x * r)))"

text \<open>The values of the finite doubles.\<close>

definition is_double :: "rat \<Rightarrow> bool" where
  "is_double x = (round_double x = Some x)"

text \<open>
  \<open>a * b\<close> and \<open>a + b\<close> on numbers, a number being \<open>Some\<close> finite double or \<open>None\<close> for an
  infinity or \<open>NaN\<close>. A sum with an operand that is not finite is not finite; the operands
  of the products taken here are a finite price and a finite quantity.
\<close>

definition js_times :: "rat option \<Rightarrow> rat option \<Rightarrow> rat option" where
  "js_times a b =
     (case a of None \<Rightarrow> None
      | Some x \<Rightarrow> (case b of None \<Rightarrow> None | Some y \<Rightarrow> round_double (x * y)))"

definition js_plus :: "rat option \<Rightarrow> rat option \<Rightarrow> rat option" where
  "js_plus a b =
     (case a of None \<Rightarrow> None
      | Some x \<Rightarrow> (case b of None \<Rightarrow> None | Some y \<Rightarrow> round_double (x + y)))"

text \<open>How an awaited promise settles: with a value, or with the value thrown.\<close>

datatype ('a, 'e) settled = Resolved 'a | Rejected 'e


section \<open>The API client (\<open>lib/api\<close>)\<close>

subsection \<open>Types of requests and responses\<close>

record Product =
  id' :: int
  name :: string
  description :: string
  price :: rat
  category :: string
  imageUrl :: string

record OrderItem =
  item_id :: int
  item_productId :: int
  productName :: string
  item_quantity :: int
  item_price :: rat

record Order =
  order_id :: int
  tableId :: int
  userId :: int
  status :: string
  items :: "OrderItem list"
  total :: rat
  orderDate :: string

text \<open>
  One entry \<open>{ productId, quantity }\<close> of a \<open>CreateOrderRequest\<close>. The request built by the
  guest checkout carries \<open>tableId: Number.parseInt(selectedTable)\<close> and a \<open>guestName\<close>; the
  model keeps the argument of \<open>Number.parseInt\<close>, whose result is a double.
\<close>

record RequestItem =
  req_productId :: int
  req_quantity :: int

record CreateOrderRequest =
  req_tableId_source :: string
  req_guestName :: string
  req_items :: "RequestItem list"

subsection \<open>Errors\<close>

text \<open>
  The body of an error response, as \<open>handleApiError\<close> reads it: falsy, or a truthy value
  with its \<open>error\<close> and \<open>details\<close> properties (absent properties, and every property of a
  truthy primitive, are \<open>undefined\<close>). An object-valued \<open>details\<close> is given by the list that
  \<open>Object.values\<close> enumerates.
\<close>

datatype details = DetailsString string | DetailsObject "string list"

datatype response_data = FalsyData | TruthyData "string option" "details option"

record HttpResponse =
  http_status :: int
  data :: response_data

text \<open>
  An \<open>AxiosError\<close>: its \<open>message\<close>, its \<open>response\<close> (undefined when none was received),
  whether its \<open>request\<close> property is truthy, and the endpoint of \<open>config.url\<close>.
\<close>

record AxiosError =
  message :: string
  response :: "HttpResponse option"
  request :: bool
  config_url :: string

text \<open>
  A thrown value of type \<open>unknown\<close>: one that \<open>axios.isAxiosError\<close> accepts (an
  \<open>AxiosError\<close>, itself an instance of \<open>Error\<close>), another instance of \<open>Error\<close> with its
  message, or a value that is not an \<open>Error\<close>.
\<close>

datatype thrown = AxiosErr AxiosError | ErrorObject string | OtherValue

subsection \<open>\<open>tokenService\<close>\<close>

text \<open>
  The browser as the client sees it: whether \<open>window\<close> is defined, \<open>localStorage\<close>, and
  the values assigned to \<open>window.location.href\<close>, oldest first.
\<close>

record Browser =
  window_defined :: bool
  localStorage :: "string \<rightharpoonup> string"
  href_assignments :: "string list"

definition getToken :: "Browser \<Rightarrow> string option" where
  "getToken b = (if window_defined b then localStorage b ''auth_token'' else None)"

definition setToken :: "string \<Rightarrow> Browser \<Rightarrow> Browser" where
  "setToken token b =
     (if window_defined b then b\<lparr>localStorage := (localStorage b)(''auth_token'' \<mapsto> token)\<rparr>
      else b)"

definition removeToken :: "Browser \<Rightarrow> Browser" where
  "removeToken b =
     (if window_defined b then b\<lparr>localStorage := (localStorage b)(''auth_token'' := None)\<rparr>
      else b)"

definition isAuthenticated :: "Browser \<Rightarrow> bool" where
  "isAuthenticated b = truthy_string (getToken b)"

subsection \<open>The response interceptor\<close>

text \<open>
  The rejection handler of \<open>api.interceptors.response.use\<close>. \<open>error.response?.status\<close> is
  \<open>undefined\<close> without a response. The handler always returns \<open>Promise.reject(error)\<close>.
\<close>

definition response_error_interceptor ::
  "AxiosError \<Rightarrow> Browser \<Rightarrow> Browser \<times> (HttpResponse, thrown) settled" where
  "response_error_interceptor error b =
     ((if (case response error of None \<Rightarrow> False | Some r \<Rightarrow> http_status r = 401)
       then (let b1 = removeToken b
             in if window_defined b1
                then b1\<lparr>href_assignments := href_assignments b1 @ [''/login'']\<rparr>
                else b1)
       else b),
      Rejected (AxiosErr error))"

subsection \<open>\<open>handleApiError\<close>\<close>

definition handleApiError :: "thrown \<Rightarrow> string" where
  "handleApiError error =
     (case error of
        AxiosErr axiosError \<Rightarrow>
          if message axiosError = ''Network Error''
          then ''Cannot connect to the server. Please check your connection or try again later.''
          else
            (case (case response axiosError of
                     None \<Rightarrow> None
                   | Some r \<Rightarrow>
                       (case data r of
                          FalsyData \<Rightarrow> None
                        | TruthyData errorMessage details \<Rightarrow>
                            if truthy_string errorMessage then errorMessage
                            else (case details of
                                    None \<Rightarrow> None
                                  | Some (DetailsString s) \<Rightarrow> if s \<noteq> [] then Some s else None
                                  | Some (DetailsObject vs) \<Rightarrow> Some (join '', '' vs)))) of
               Some returned \<Rightarrow> returned
             | None \<Rightarrow>
                 (case response axiosError of
                    Some r \<Rightarrow>
                      if http_status r = 400 then ''Bad request. Please check your input.''
                      else if http_status r = 401 then ''Unauthorized. Please log in again.''
                      else if http_status r = 403
                      then ''Forbidden. You do not have permission to access this resource.''
                      else if http_status r = 404 then ''Resource not found.''
                      else if http_status r = 500 then ''Server error. Please try again later.''
                      else ''Error: '' @ number_to_string (http_status r)
                  | None \<Rightarrow>
                      if request axiosError then ''Network error. Please check your connection.''
                      else message axiosError))
      | ErrorObject m \<Rightarrow> m
      | OtherValue \<Rightarrow> ''An unknown error occurred'')"


text \<open>
  An error response carries no structured error body when its body is falsy, or is truthy
  with neither a truthy \<open>error\<close> nor a truthy \<open>details\<close> property.
\<close>

definition no_error_body :: "response_data \<Rightarrow> bool" where
  "no_error_body d =
     (case d of
        FalsyData \<Rightarrow> True
      | TruthyData errorMessage details \<Rightarrow>
          \<not> truthy_string errorMessage
          \<and> (details = None \<or> details = Some (DetailsString [])))"

section \<open>The call-state hook (\<open>hooks/use-api\<close>)\<close>

record ApiHook =
  isLoading :: bool
  error :: "string option"

text \<open>
  \<open>executeApiCall(apiCall)\<close>, given how \<open>apiCall()\<close> settles: the result as it is, or \<open>null\<close>
  with the translated error stored. The returned promise never rejects.
\<close>

definition executeApiCall ::
  "('a option, thrown) settled \<Rightarrow> 'h ApiHook_scheme \<Rightarrow> 'a option \<times> 'h ApiHook_scheme" where
  "executeApiCall apiCall h =
     (case apiCall of
        Resolved result \<Rightarrow> (result, h\<lparr>error := None, isLoading := False\<rparr>)
      | Rejected err \<Rightarrow> (None, h\<lparr>error := Some (handleApiError err), isLoading := False\<rparr>))"


section \<open>The guest menu page (\<open>app/menu/page\<close>)\<close>

record CartItem = Product +
  quantity :: int

subsection \<open>The cart\<close>

definition addToCart :: "'a Product_scheme \<Rightarrow> CartItem list \<Rightarrow> CartItem list" where
  "addToCart product prevCart =
     (case find (\<lambda>item. id' item = id' product) prevCart of
        Some existingItem \<Rightarrow>
          map (\<lambda>item. if id' item = id' product then item\<lparr>quantity := quantity item + 1\<rparr> else item)
            prevCart
      | None \<Rightarrow>
          prevCart @
            [\<lparr>id' = id' product, name = name product, description = description product,
              price = price product, category = category product, imageUrl = imageUrl product,
              quantity = 1\<rparr>])"

definition removeFromCart :: "int \<Rightarrow> CartItem list \<Rightarrow> CartItem list" where
  "removeFromCart productId prevCart =
     (if (case find (\<lambda>item. id' item = productId) prevCart of
            Some existingItem \<Rightarrow> quantity existingItem > 1
          | None \<Rightarrow> False)
      then map (\<lambda>item. if id' item = productId then item\<lparr>quantity := quantity item - 1\<rparr> else item)
             prevCart
      else filter (\<lambda>item. id' item \<noteq> productId) prevCart)"

text \<open>
  A cart as the operations keep it: one line per product id, every quantity at least 1.
\<close>

definition well_formed_cart :: "CartItem list \<Rightarrow> bool" where
  "well_formed_cart c = (distinct (map id' c) \<and> list_all (\<lambda>item. 1 \<le> quantity item) c)"

definition getTotalItems :: "CartItem list \<Rightarrow> int" where
  "getTotalItems cart = foldl (\<lambda>total item. total + quantity item) 0 cart"

definition getTotalPrice :: "CartItem list \<Rightarrow> rat option" where
  "getTotalPrice cart =
     foldl (\<lambda>total item. js_plus total (js_times (Some (price item)) (Some (of_int (quantity item)))))
       (Some 0) cart"


subsection \<open>Effects of a handler\<close>

text \<open>
  What a handler does besides updating the page state, in the order of the calls: a
  toast (title, description, variant), a request handed to the API client, and a
  \<open>setTimeout(() => router.push(route), ms)\<close>. Console output is left out.
\<close>

datatype toast_variant = DefaultVariant | Destructive

datatype toast = Toast string string toast_variant

datatype effect =
    ShowToast toast
  | OrdersCreate CreateOrderRequest
  | OrdersUpdateStatus int string
  | SetTimeoutPush nat string

fun api_calls :: "effect list \<Rightarrow> effect list" where
  "api_calls [] = []"
| "api_calls (OrdersCreate r # es) = OrdersCreate r # api_calls es"
| "api_calls (OrdersUpdateStatus i s # es) = OrdersUpdateStatus i s # api_calls es"
| "api_calls (e # es) = api_calls es"

fun toasts :: "effect list \<Rightarrow> toast list" where
  "toasts [] = []"
| "toasts (ShowToast t # es) = t # toasts es"
| "toasts (e # es) = toasts es"

fun navigations :: "effect list \<Rightarrow> (nat \<times> string) list" where
  "navigations [] = []"
| "navigations (SetTimeoutPush ms route # es) = (ms, route) # navigations es"
| "navigations (e # es) = navigations es"

fun toast_title :: "toast \<Rightarrow> string" where
  "toast_title (Toast title descr v) = title"

fun toast_variant_of :: "toast \<Rightarrow> toast_variant" where
  "toast_variant_of (Toast title descr v) = v"

subsection \<open>Checkout\<close>

record MenuPage = ApiHook +
  cart :: "CartItem list"
  isCartOpen :: bool
  selectedTable :: "string option"
  isPlacingOrder :: bool
  cartCustomerName :: string

text \<open>A \<open>string | null\<close> inside a template literal.\<close>

fun template_string :: "string option \<Rightarrow> string" where
  "template_string None = ''null''"
| "template_string (Some s) = s"

text \<open>
  The rest of \<open>handleCheckout\<close> once \<open>await executeApiCall(...)\<close> has settled: the end of
  the \<open>try\<close> block when it resolved, the \<open>catch\<close> block when it rejected, and \<open>finally\<close>.
  The handler's closure still holds the table and the name of the render it was created in.
\<close>

definition handleCheckout_settled ::
  "(Order option, thrown) settled \<Rightarrow> MenuPage \<Rightarrow> MenuPage \<times> effect list" where
  "handleCheckout_settled awaited st =
     (let reset = st\<lparr>cart := [], cartCustomerName := [], isCartOpen := False,
                     isPlacingOrder := False\<rparr>;
          route = ''/table-orders/'' @ template_string (selectedTable st)
      in case awaited of
           Resolved result \<Rightarrow>
             (reset,
              [ShowToast
                 (if result \<noteq> None
                  then Toast ''Order Placed Successfully!''
                         (''Thank you '' @ trim (cartCustomerName st)
                          @ ''! Your order has been placed for Table ''
                          @ template_string (selectedTable st))
                         DefaultVariant
                  else Toast ''Order Submitted''
                         (''Your order has been submitted. Please check with staff ''
                          @ ''if you don'' @ [CHR 0x27] @ ''t see it appear shortly.'')
                         Destructive),
               SetTimeoutPush 1000 route])
         | Rejected err \<Rightarrow>
             (reset,
              [ShowToast
                 (Toast ''Order Submission Error''
                    (''There was an issue submitting your order. ''
                     @ ''Please try again or contact staff.'')
                    Destructive),
               SetTimeoutPush 2000 route]))"

text \<open>
  \<open>handleCheckout\<close>, given how \<open>api.orders.create(request)\<close> settles. The awaited promise is
  the one \<open>executeApiCall\<close> returns, which resolves also when the API call throws.
\<close>

definition handleCheckout ::
  "(Order option, thrown) settled \<Rightarrow> MenuPage \<Rightarrow> MenuPage \<times> effect list" where
  "handleCheckout created st =
     (if \<not> truthy_string (selectedTable st) \<or> cart st = []
      then (st,
            [ShowToast
               (Toast ''Cannot place order''
                  ''Please ensure you have items in your cart and a table selected''
                  Destructive)])
      else if trim (cartCustomerName st) = []
      then (st,
            [ShowToast
               (Toast ''Name Required'' ''Please enter your name before placing the order''
                  Destructive)])
      else
        (let orderItems =
               map (\<lambda>item. \<lparr>req_productId = id' item, req_quantity = quantity item\<rparr>) (cart st);
             request =
               \<lparr>req_tableId_source = template_string (selectedTable st),
                req_guestName = trim (cartCustomerName st), req_items = orderItems\<rparr>;
             (result, st1) = executeApiCall created (st\<lparr>isPlacingOrder := True\<rparr>);
             (st2, effects) = handleCheckout_settled (Resolved result) st1
         in (st2, OrdersCreate request # effects)))"


section \<open>The dashboard orders page (\<open>app/dashboard/orders/page\<close>)\<close>

record NewOrderForm =
  form_tableId :: int
  form_guestName :: string
  form_items :: "RequestItem list"

record OrdersPage = ApiHook +
  orders :: "Order list"
  newOrder :: NewOrderForm
  selectedProduct :: "int option"
  selectedQuantity :: int

text \<open>\<open>Array.prototype.findIndex\<close>: the first index whose element passes, or \<open>-1\<close>.\<close>

fun findIndex :: "('a \<Rightarrow> bool) \<Rightarrow> 'a list \<Rightarrow> int" where
  "findIndex P [] = - 1"
| "findIndex P (x # xs) =
     (if P x then 0 else (let i = findIndex P xs in if i < 0 then - 1 else i + 1))"

text \<open>
  The updated entry is the object the previous array holds as well; the model returns the
  new array only.
\<close>

definition handleAddProductToOrder :: "OrdersPage \<Rightarrow> OrdersPage" where
  "handleAddProductToOrder st =
     (if \<not> truthy_number (selectedProduct st) \<or> selectedQuantity st \<le> 0 then st
      else
        (case selectedProduct st of
           None \<Rightarrow> st
         | Some product \<Rightarrow>
             (let its = form_items (newOrder st);
                  existingItemIndex = findIndex (\<lambda>item. req_productId item = product) its;
                  updatedItems =
                    (if existingItemIndex \<ge> 0
                     then its[nat existingItemIndex :=
                            (its ! nat existingItemIndex)
                              \<lparr>req_quantity :=
                                 req_quantity (its ! nat existingItemIndex) + selectedQuantity st\<rparr>]
                     else its @ [\<lparr>req_productId = product, req_quantity = selectedQuantity st\<rparr>])
              in st\<lparr>newOrder := (newOrder st)\<lparr>form_items := updatedItems\<rparr>,
                    selectedProduct := None, selectedQuantity := 1\<rparr>)))"

definition handleRemoveProductFromOrder :: "int \<Rightarrow> OrdersPage \<Rightarrow> OrdersPage" where
  "handleRemoveProductFromOrder productId st =
     st\<lparr>newOrder :=
          (newOrder st)
            \<lparr>form_items := filter (\<lambda>item. req_productId item \<noteq> productId)
                             (form_items (newOrder st))\<rparr>\<rparr>"

text \<open>
  The \<open>switch\<close> of \<open>handleQuickStatusUpdate\<close>: the status to move to, or nothing where the
  handler returns at once.
\<close>

definition quick_next_status :: "string \<Rightarrow> string option" where
  "quick_next_status currentStatus =
     (if currentStatus = ''new'' then Some ''preparing''
      else if currentStatus = ''preparing'' then Some ''ready''
      else if currentStatus = ''ready'' then Some ''delivered''
      else if currentStatus = ''delivered'' then Some ''paid''
      else None)"

text \<open>\<open>handleQuickStatusUpdate\<close>, given how \<open>api.orders.updateStatus\<close> settles.\<close>

definition handleQuickStatusUpdate ::
  "(Order option, thrown) settled \<Rightarrow> int \<Rightarrow> string \<Rightarrow> OrdersPage \<Rightarrow> OrdersPage \<times> effect list" where
  "handleQuickStatusUpdate updated orderId currentStatus st =
     (case quick_next_status currentStatus of
        None \<Rightarrow> (st, [])
      | Some newStatus \<Rightarrow>
          (let (result, st1) = executeApiCall updated st
           in case result of
                Some res \<Rightarrow>
                  (st1\<lparr>orders :=
                         map (\<lambda>order. if order_id order = orderId then res else order) (orders st)\<rparr>,
                   [OrdersUpdateStatus orderId newStatus,
                    ShowToast
                      (Toast ''Success'' (''Order status updated to '' @ newStatus)
                         DefaultVariant)])
              | None \<Rightarrow> (st1, [OrdersUpdateStatus orderId newStatus])))"

text \<open>
  The status sequence as the specification gives it, and the successor of an element in a
  sequence: the element that follows its first occurrence.
\<close>

definition status_sequence :: "string list" where
  "status_sequence = [''new'', ''preparing'', ''ready'', ''delivered'', ''paid'']"

fun successor_in :: "'a list \<Rightarrow> 'a \<Rightarrow> 'a option" where
  "successor_in (x # y # ys) s = (if s = x then Some y else successor_in (y # ys) s)"
| "successor_in ys s = None"



section \<open>Example data\<close>

text \<open>Product A at 3.50, product B at 5.00, and the cart line of a product and a quantity.\<close>

definition product_A :: Product where
  "product_A = \<lparr>id' = 1, name = ''Product A'', description = ''Espresso'', price = 7 / 2,
                 category = ''drinks'', imageUrl = ''/a.png''\<rparr>"

definition product_B :: Product where
  "product_B = \<lparr>id' = 2, name = ''Product B'', description = ''Croissant'', price = 5,
                 category = ''food'', imageUrl = ''/b.png''\<rparr>"

definition line_of :: "Product \<Rightarrow> int \<Rightarrow> CartItem" where
  "line_of p q = \<lparr>id' = id' p, name = name p, description = description p, price = price p,
                   category = category p, imageUrl = imageUrl p, quantity = q\<rparr>"

text \<open>The doubles written \<open>0.1\<close> and \<open>0.2\<close>, and a cart of one item at each price.\<close>

definition double_tenth :: rat where
  "double_tenth = 3602879701896397 / 36028797018963968"

definition double_fifth :: rat where
  "double_fifth = 3602879701896397 / 18014398509481984"

definition tenths_cart :: "CartItem list" where
  "tenths_cart = [line_of (product_A\<lparr>price := double_tenth\<rparr>) 1,
                  line_of (product_B\<lparr>price := double_fifth\<rparr>) 1]"

text \<open>A draft order of the dashboard with two entries, product 2 selected with quantity 3.\<close>

definition draft_example :: OrdersPage where
  "draft_example =
     \<lparr>isLoading = False, error = None, orders = [],
      newOrder = \<lparr>form_tableId = 3, form_guestName = ''Ann'',
                  form_items = [\<lparr>req_productId = 1, req_quantity = 2\<rparr>,
                                \<lparr>req_productId = 2, req_quantity = 1\<rparr>]\<rparr>,
      selectedProduct = Some 2, selectedQuantity = 3\<rparr>"

text \<open>A guest at table 5 with two A and one B in the cart, and an order as the server returns it.\<close>

definition checkout_example :: MenuPage where
  "checkout_example =
     \<lparr>isLoading = False, error = None, cart = [line_of product_A 2, line_of product_B 1],
      isCartOpen = True, selectedTable = Some ''5'', isPlacingOrder = False,
      cartCustomerName = '' Bob ''\<rparr>"

definition order_example :: Order where
  "order_example =
     \<lparr>order_id = 17, tableId = 5, userId = 0, status = ''new'',
      items = [\<lparr>item_id = 1, item_productId = 1, productName = ''Product A'', item_quantity = 2,
                item_price = 7 / 2\<rparr>,
               \<lparr>item_id = 2, item_productId = 2, productName = ''Product B'', item_quantity = 1,
                item_price = 5\<rparr>],
      total = 12,
      orderDate = ''2025-01-01T10:00:00Z''\<rparr>"

text \<open>The orders page showing that order.\<close>

definition orders_example :: OrdersPage where
  "orders_example = draft_example\<lparr>orders := [order_example]\<rparr>"

text \<open>A browser holding a token, and two error responses without a body.\<close>

definition browser_example :: Browser where
  "browser_example =
     \<lparr>window_defined = True, localStorage = [''auth_token'' \<mapsto> ''abc''],
      href_assignments = []\<rparr>"

definition unauthorized_example :: AxiosError where
  "unauthorized_example =
     \<lparr>message = ''Request failed with status code 401'',
      response = Some \<lparr>http_status = 401, data = FalsyData\<rparr>,
      request = True, config_url = ''/orders''\<rparr>"

definition teapot_example :: AxiosError where
  "teapot_example =
     \<lparr>message = ''Request failed with status code 418'',
      response = Some \<lparr>http_status = 418, data = TruthyData None None\<rparr>,
      request = True, config_url = ''/products''\<rparr>"


section \<open>The cart totals\<close>

lemma foldl_add_sum_list:
  fixes f :: "'a \<Rightarrow> 'b::comm_monoid_add"
  shows "foldl (\<lambda>total item. total + f item) a xs = a + sum_list (map f xs)"
  by (induction xs arbitrary: a) (simp_all add: add.assoc)

lemma floor_numeral_div: "\<lfloor>numeral a / numeral b :: rat\<rfloor> = numeral a div numeral b"
  using floor_divide_of_int_eq[of "numeral a" "numeral b", where ?'a = rat] by simp

lemma round_double_eval:
  assumes "x \<noteq> 0" and "exponent \<bar>x\<bar> = e"
    and "round_half_even (\<bar>x\<bar> / 2 powi (e - 52)) = m"
    and "of_int m * 2 powi (e - 52) < (2::rat) powi 1024"
  shows "round_double x = Some (sgn x * (of_int m * 2 powi (e - 52)))"
  using assms by (simp add: round_double_def Let_def not_le)

lemmas double_arith = exponent_def scale_down.simps scale_up.simps round_half_even_def Let_def
  power_int_def power_divide floor_numeral_div

lemma is_double_0: "is_double 0"
  by (simp add: is_double_def round_double_def)

lemma is_double_5: "is_double 5"
  unfolding is_double_def using round_double_eval[of 5 2 5629499534213120]
  by (simp add: double_arith)

lemma is_double_7: "is_double 7"
  unfolding is_double_def using round_double_eval[of 7 2 7881299347898368]
  by (simp add: double_arith)

lemma is_double_12: "is_double 12"
  unfolding is_double_def using round_double_eval[of 12 3 6755399441055744]
  by (simp add: double_arith)

lemma is_double_tenth: "is_double double_tenth"
  unfolding is_double_def using round_double_eval[of double_tenth "- 4" 7205759403792794]
  by (simp add: double_arith double_tenth_def)

lemma is_double_fifth: "is_double double_fifth"
  unfolding is_double_def using round_double_eval[of double_fifth "- 3" 7205759403792794]
  by (simp add: double_arith double_fifth_def)

lemma round_tenth: "round_double (1 / 10) = Some double_tenth"
  using round_double_eval[of "1 / 10" "- 4" 7205759403792794]
  by (simp add: double_arith double_tenth_def)

lemma round_fifth: "round_double (1 / 5) = Some double_fifth"
  using round_double_eval[of "1 / 5" "- 3" 7205759403792794]
  by (simp add: double_arith double_fifth_def)

lemma round_tenth_plus_fifth:
  "round_double (double_tenth + double_fifth) = Some (1351079888211149 / 4503599627370496)"
  using round_double_eval[of "double_tenth + double_fifth" "- 2" 5404319552844596]
  by (simp add: double_arith double_tenth_def double_fifth_def)

lemma getTotalPrice_Nil: "getTotalPrice [] = Some 0"
  by (simp add: getTotalPrice_def)

lemma getTotalPrice_snoc:
  "getTotalPrice (c @ [item]) =
     js_plus (getTotalPrice c) (js_times (Some (price item)) (Some (of_int (quantity item))))"
  by (simp add: getTotalPrice_def)

lemma getTotalPrice_exact:
  assumes "\<forall>item\<in>set c. is_double (price item * of_int (quantity item))"
    and "\<forall>k\<le>length c. is_double (\<Sum>item\<leftarrow>take k c. price item * of_int (quantity item))"
  shows "getTotalPrice c = Some (\<Sum>item\<leftarrow>c. price item * of_int (quantity item))"
  using assms
proof (induction c rule: rev_induct)
  case Nil
  show ?case by (simp add: getTotalPrice_Nil)
next
  case (snoc x xs)
  have products: "\<forall>item\<in>set xs. is_double (price item * of_int (quantity item))"
    using snoc.prems(1) by simp
  have sums: "\<forall>k\<le>length xs. is_double (\<Sum>item\<leftarrow>take k xs. price item * of_int (quantity item))"
  proof (intro allI impI)
    fix k assume k: "k \<le> length xs"
    then have "k \<le> length (xs @ [x])" by simp
    with snoc.prems(2)
    have "is_double (\<Sum>item\<leftarrow>take k (xs @ [x]). price item * of_int (quantity item))"
      by blast
    with k show "is_double (\<Sum>item\<leftarrow>take k xs. price item * of_int (quantity item))"
      by simp
  qed
  have before: "getTotalPrice xs = Some (\<Sum>item\<leftarrow>xs. price item * of_int (quantity item))"
    by (rule snoc.IH[OF products sums])
  have product: "round_double (price x * of_int (quantity x))
                   = Some (price x * of_int (quantity x))"
    using snoc.prems(1) by (simp add: is_double_def)
  have "is_double (\<Sum>item\<leftarrow>take (length (xs @ [x])) (xs @ [x]).
                      price item * of_int (quantity item))"
    using snoc.prems(2) by blast
  then have total: "round_double ((\<Sum>item\<leftarrow>xs. price item * of_int (quantity item))
                       + price x * of_int (quantity x))
      = Some ((\<Sum>item\<leftarrow>xs. price item * of_int (quantity item))
                       + price x * of_int (quantity x))"
    by (simp add: is_double_def)
  show ?case
    by (simp add: getTotalPrice_snoc before js_plus_def js_times_def product total)
qed

lemma getTotalPrice_two:
  "getTotalPrice [x, y] =
     js_plus (js_plus (Some 0) (js_times (Some (price x)) (Some (of_int (quantity x)))))
       (js_times (Some (price y)) (Some (of_int (quantity y))))"
  by (simp add: getTotalPrice_def)

text \<open>
  Claim C3, as the code has it. For every cart, \<open>getTotalItems\<close> is the sum of the quantities
  of all lines. \<open>getTotalPrice\<close> adds the lines from left to right, each product of price
  and quantity and each partial sum rounded to a double; it is the sum over all lines of
  price times quantity whenever every such product and every partial sum is a double. Both
  totals are 0 for the empty cart; a cart of a line priced 3.50 with quantity 2 and a line
  priced 5.00 with quantity 1 has 3 items and costs 12.00.
\<close>

theorem cart_totals:
  "getTotalItems c = (\<Sum>item\<leftarrow>c. quantity item)
   \<and> ((\<forall>item\<in>set c. is_double (price item * of_int (quantity item)))
        \<and> (\<forall>k\<le>length c. is_double (\<Sum>item\<leftarrow>take k c. price item * of_int (quantity item)))
       \<longrightarrow> getTotalPrice c = Some (\<Sum>item\<leftarrow>c. price item * of_int (quantity item)))
   \<and> getTotalPrice (c @ [item]) =
        js_plus (getTotalPrice c) (js_times (Some (price item)) (Some (of_int (quantity item))))
   \<and> getTotalItems [] = 0 \<and> getTotalPrice [] = Some 0
   \<and> getTotalItems [a\<lparr>price := 7 / 2, quantity := 2\<rparr>, b\<lparr>price := 5, quantity := 1\<rparr>] = 3
   \<and> getTotalPrice [a\<lparr>price := 7 / 2, quantity := 2\<rparr>, b\<lparr>price := 5, quantity := 1\<rparr>] = Some 12"
proof (intro conjI impI)
  show "getTotalItems c = (\<Sum>item\<leftarrow>c. quantity item)"
    by (simp add: getTotalItems_def foldl_add_sum_list)
next
  assume "(\<forall>item\<in>set c. is_double (price item * of_int (quantity item)))
        \<and> (\<forall>k\<le>length c. is_double (\<Sum>item\<leftarrow>take k c. price item * of_int (quantity item)))"
  then show "getTotalPrice c = Some (\<Sum>item\<leftarrow>c. price item * of_int (quantity item))"
    by (intro getTotalPrice_exact) simp_all
next
  show "getTotalPrice (c @ [item]) =
        js_plus (getTotalPrice c) (js_times (Some (price item)) (Some (of_int (quantity item))))"
    by (rule getTotalPrice_snoc)
next
  show "getTotalItems [] = 0" by (simp add: getTotalItems_def)
next
  show "getTotalPrice [] = Some 0" by (rule getTotalPrice_Nil)
next
  show "getTotalItems [a\<lparr>price := 7 / 2, quantity := 2\<rparr>, b\<lparr>price := 5, quantity := 1\<rparr>] = 3"
    by (simp add: getTotalItems_def)
next
  have "round_double 7 = Some 7" "round_double 5 = Some 5" "round_double 12 = Some 12"
    using is_double_7 is_double_5 is_double_12 by (simp_all add: is_double_def)
  then show "getTotalPrice [a\<lparr>price := 7 / 2, quantity := 2\<rparr>, b\<lparr>price := 5, quantity := 1\<rparr>]
      = Some 12"
    by (simp add: getTotalPrice_two js_plus_def js_times_def)
qed

theorem cart_totals_witness:
  "getTotalItems [line_of product_A 2, line_of product_B 1] = 3
   \<and> is_double (price (line_of product_A 2) * of_int (quantity (line_of product_A 2)))
   \<and> is_double (price (line_of product_B 1) * of_int (quantity (line_of product_B 1)))
   \<and> getTotalPrice [line_of product_A 2, line_of product_B 1] = Some 12"
proof -
  let ?c = "[line_of product_A 2, line_of product_B 1]"
  have pa: "price (line_of product_A 2) * of_int (quantity (line_of product_A 2)) = 7"
    and pb: "price (line_of product_B 1) * of_int (quantity (line_of product_B 1)) = 5"
    by (simp_all add: line_of_def product_A_def product_B_def)
  have products: "\<forall>item\<in>set ?c. is_double (price item * of_int (quantity item))"
    by (simp add: pa pb is_double_7 is_double_5)
  have sums: "\<forall>k\<le>length ?c. is_double (\<Sum>item\<leftarrow>take k ?c. price item * of_int (quantity item))"
  proof (intro allI impI)
    fix k assume "k \<le> length ?c"
    then consider "k = 0" | "k = 1" | "k = 2" by fastforce
    then show "is_double (\<Sum>item\<leftarrow>take k ?c. price item * of_int (quantity item))"
      by cases (simp_all add: pa pb is_double_0 is_double_7 is_double_12)
  qed
  from cart_totals[of ?c] products sums
  have "getTotalItems ?c = (\<Sum>item\<leftarrow>?c. quantity item)"
    and "getTotalPrice ?c = Some (\<Sum>item\<leftarrow>?c. price item * of_int (quantity item))"
    by blast+
  then show ?thesis
    by (simp add: pa pb is_double_7 is_double_5) (simp add: line_of_def)
qed

text \<open>
  The total is not always the sum of price times quantity: for one item at \<open>0.1\<close> and one
  at \<open>0.2\<close> the sum of the two doubles lies halfway between two doubles, and the total is the
  upper one, \<open>0.30000000000000004\<close>.
\<close>

theorem cart_total_counterexample:
  "getTotalPrice tenths_cart = Some (1351079888211149 / 4503599627370496)
   \<and> (\<Sum>item\<leftarrow>tenths_cart. price item * of_int (quantity item))
       = 10808639105689191 / 36028797018963968
   \<and> getTotalPrice tenths_cart
       \<noteq> Some (\<Sum>item\<leftarrow>tenths_cart. price item * of_int (quantity item))"
proof -
  have lines: "tenths_cart = [line_of (product_A\<lparr>price := double_tenth\<rparr>) 1,
                              line_of (product_B\<lparr>price := double_fifth\<rparr>) 1]"
    by (simp add: tenths_cart_def)
  have p: "price (line_of (product_A\<lparr>price := double_tenth\<rparr>) 1) = double_tenth"
    "price (line_of (product_B\<lparr>price := double_fifth\<rparr>) 1) = double_fifth"
    "quantity (line_of (product_A\<lparr>price := double_tenth\<rparr>) 1) = 1"
    "quantity (line_of (product_B\<lparr>price := double_fifth\<rparr>) 1) = 1"
    by (simp_all add: line_of_def)
  have r: "round_double double_tenth = Some double_tenth"
    "round_double double_fifth = Some double_fifth"
    using is_double_tenth is_double_fifth by (simp_all add: is_double_def)
  have total: "getTotalPrice tenths_cart = Some (1351079888211149 / 4503599627370496)"
    by (simp add: lines getTotalPrice_two p js_plus_def js_times_def r round_tenth_plus_fifth)
  have exact: "(\<Sum>item\<leftarrow>tenths_cart. price item * of_int (quantity item))
       = 10808639105689191 / 36028797018963968"
    by (simp add: lines p) (simp add: double_tenth_def double_fifth_def)
  show ?thesis
    by (simp add: total exact)
qed


section \<open>Adding to the cart\<close>

lemma find_None_iff_none_passes: "find P xs = None \<longleftrightarrow> (\<forall>x\<in>set xs. \<not> P x)"
  by (induction xs) auto

lemma addToCart_present:
  assumes "\<exists>item\<in>set c. id' item = id' product"
  shows "addToCart product c =
    map (\<lambda>item. if id' item = id' product then item\<lparr>quantity := quantity item + 1\<rparr> else item) c"
proof -
  from assms have "find (\<lambda>item. id' item = id' product) c \<noteq> None"
    by (simp add: find_None_iff_none_passes)
  then show ?thesis by (auto simp: addToCart_def split: option.splits)
qed

lemma addToCart_absent:
  assumes "\<forall>item\<in>set c. id' item \<noteq> id' product"
  shows "addToCart product c = c @
            [\<lparr>id' = id' product, name = name product, description = description product,
              price = price product, category = category product, imageUrl = imageUrl product,
              quantity = 1\<rparr>]"
proof -
  from assms have "find (\<lambda>item. id' item = id' product) c = None"
    by (simp add: find_None_iff_none_passes)
  then show ?thesis by (simp add: addToCart_def)
qed

lemma addToCart_line_count:
  "length (filter (\<lambda>item. id' item = id' product) (addToCart product c))
     = max 1 (length (filter (\<lambda>item. id' item = id' product) c))"
proof (cases "\<exists>item\<in>set c. id' item = id' product")
  case True
  then have "filter (\<lambda>item. id' item = id' product) c \<noteq> []"
    by (simp add: filter_empty_conv)
  then have "1 \<le> length (filter (\<lambda>item. id' item = id' product) c)"
    by (cases "filter (\<lambda>item. id' item = id' product) c") simp_all
  moreover have "length (filter (\<lambda>item. id' item = id' product) (addToCart product c))
      = length (filter (\<lambda>item. id' item = id' product) c)"
    by (simp add: addToCart_present[OF True] filter_map comp_def if_distrib[of id'] cong: if_cong)
  ultimately show ?thesis by simp
next
  case False
  then have a: "\<forall>item\<in>set c. id' item \<noteq> id' product" by simp
  then have "filter (\<lambda>item. id' item = id' product) c = []"
    by (simp add: filter_empty_conv)
  then show ?thesis by (simp add: addToCart_absent[OF a])
qed

text \<open>
  Claim C4. For every cart and every product, \<open>addToCart\<close> adds exactly 1 to the quantity
  of the line whose id is the product's, where the cart has one, and changes no other line
  and no position; otherwise it appends a line for the product with quantity 1. No bound is
  put on the quantity: adding a product twice to a cart without it gives one new line with
  quantity 2, not two lines, and no call adds a line for a product that has one.
\<close>

theorem addToCart_spec:
  "((\<exists>item\<in>set c. id' item = id' product) \<longrightarrow>
      length (addToCart product c) = length c
      \<and> (\<forall>k<length c.
            addToCart product c ! k =
              (if id' (c ! k) = id' product
               then (c ! k)\<lparr>quantity := quantity (c ! k) + 1\<rparr> else c ! k)))
   \<and> ((\<forall>item\<in>set c. id' item \<noteq> id' product) \<longrightarrow>
        addToCart product c = c @
            [\<lparr>id' = id' product, name = name product, description = description product,
              price = price product, category = category product, imageUrl = imageUrl product,
              quantity = 1\<rparr>]
        \<and> addToCart product (addToCart product c) = c @
            [\<lparr>id' = id' product, name = name product, description = description product,
              price = price product, category = category product, imageUrl = imageUrl product,
              quantity = 2\<rparr>])
   \<and> length (filter (\<lambda>item. id' item = id' product) (addToCart product c))
       = max 1 (length (filter (\<lambda>item. id' item = id' product) c))"
proof (intro conjI impI)
  assume p: "\<exists>item\<in>set c. id' item = id' product"
  show "length (addToCart product c) = length c"
    by (simp add: addToCart_present[OF p])
  show "\<forall>k<length c.
            addToCart product c ! k =
              (if id' (c ! k) = id' product
               then (c ! k)\<lparr>quantity := quantity (c ! k) + 1\<rparr> else c ! k)"
    by (simp add: addToCart_present[OF p])
next
  assume a: "\<forall>item\<in>set c. id' item \<noteq> id' product"
  show one: "addToCart product c = c @
            [\<lparr>id' = id' product, name = name product, description = description product,
              price = price product, category = category product, imageUrl = imageUrl product,
              quantity = 1\<rparr>]"
    by (rule addToCart_absent[OF a])
  have "\<exists>item\<in>set (addToCart product c). id' item = id' product"
    by (simp add: one)
  from addToCart_present[OF this] a
  show "addToCart product (addToCart product c) = c @
            [\<lparr>id' = id' product, name = name product, description = description product,
              price = price product, category = category product, imageUrl = imageUrl product,
              quantity = 2\<rparr>]"
    by (simp add: one map_idI)
next
  show "length (filter (\<lambda>item. id' item = id' product) (addToCart product c))
       = max 1 (length (filter (\<lambda>item. id' item = id' product) c))"
    by (rule addToCart_line_count)
qed

theorem addToCart_spec_witness:
  "id' (line_of product_A 1) = id' product_A
   \<and> addToCart product_A [line_of product_A 1] = [line_of product_A 2]
   \<and> id' (line_of product_A 1) \<noteq> id' product_B
   \<and> addToCart product_B [line_of product_A 1] = [line_of product_A 1, line_of product_B 1]
   \<and> addToCart product_B (addToCart product_B [line_of product_A 1])
       = [line_of product_A 1, line_of product_B 2]"
  using addToCart_spec[of "[line_of product_A 1]" product_A]
    addToCart_spec[of "[line_of product_A 1]" product_B]
  by (simp add: line_of_def product_A_def product_B_def list_eq_iff_nth_eq)


section \<open>The frame of the cart operations\<close>

text \<open>
  Claim C10. For every cart and every product \<open>p\<close>, the lines whose id differs from
  \<open>p\<close>'s are, after \<open>addToCart p\<close> and after \<open>removeFromCart\<close> of \<open>p\<close>'s id, the same lines with
  the same fields and quantities in the same order as before.
\<close>

theorem cart_frame:
  "filter (\<lambda>item. id' item \<noteq> id' p) (addToCart p c) = filter (\<lambda>item. id' item \<noteq> id' p) c
   \<and> filter (\<lambda>item. id' item \<noteq> id' p) (removeFromCart (id' p) c)
       = filter (\<lambda>item. id' item \<noteq> id' p) c"
  by (auto simp: addToCart_def removeFromCart_def filter_map comp_def split: option.splits
      intro!: filter_cong map_idI)


section \<open>Lists with a single matching element\<close>

lemma map_if_only_index:
  "k < length xs \<Longrightarrow> P (xs ! k) \<Longrightarrow> (\<forall>j<length xs. P (xs ! j) \<longrightarrow> j = k) \<Longrightarrow>
   map (\<lambda>x. if P x then f x else x) xs = xs[k := f (xs ! k)]"
proof (induction xs arbitrary: k)
  case Nil
  then show ?case by simp
next
  case (Cons x xs)
  show ?case
  proof (cases k)
    case 0
    have "\<not> P y" if "y \<in> set xs" for y
    proof
      assume "P y"
      from that obtain j where "j < length xs" "y = xs ! j" by (auto simp: in_set_conv_nth)
      with \<open>P y\<close> have "Suc j < length (x # xs)" "P ((x # xs) ! Suc j)" by simp_all
      with Cons.prems(3) have "Suc j = k" by blast
      with 0 show False by simp
    qed
    then have "map (\<lambda>x. if P x then f x else x) xs = xs" by (intro map_idI) simp
    with 0 Cons.prems(2) show ?thesis by simp
  next
    case (Suc m)
    have "\<not> P x"
    proof
      assume "P x"
      then have "P ((x # xs) ! 0)" by simp
      with Cons.prems(3) have "0 = k" by blast
      with Suc show False by simp
    qed
    moreover have "map (\<lambda>x. if P x then f x else x) xs = xs[m := f (xs ! m)]"
    proof (rule Cons.IH)
      show "m < length xs" using Cons.prems(1) Suc by simp
      show "P (xs ! m)" using Cons.prems(2) Suc by simp
      show "\<forall>j<length xs. P (xs ! j) \<longrightarrow> j = m"
      proof (intro allI impI)
        fix j assume "j < length xs" "P (xs ! j)"
        then have "Suc j < length (x # xs)" "P ((x # xs) ! Suc j)" by simp_all
        with Cons.prems(3) have "Suc j = k" by blast
        with Suc show "j = m" by simp
      qed
    qed
    ultimately show ?thesis using Suc by simp
  qed
qed



lemma filter_out_only_index:
  "k < length xs \<Longrightarrow> P (xs ! k) \<Longrightarrow> (\<forall>j<length xs. P (xs ! j) \<longrightarrow> j = k) \<Longrightarrow>
   filter (\<lambda>x. \<not> P x) xs = take k xs @ drop (Suc k) xs"
proof (induction xs arbitrary: k)
  case Nil
  then show ?case by simp
next
  case (Cons x xs)
  show ?case
  proof (cases k)
    case 0
    have "\<not> P y" if "y \<in> set xs" for y
    proof
      assume "P y"
      from that obtain j where "j < length xs" "y = xs ! j" by (auto simp: in_set_conv_nth)
      with \<open>P y\<close> have "Suc j < length (x # xs)" "P ((x # xs) ! Suc j)" by simp_all
      with Cons.prems(3) have "Suc j = k" by blast
      with 0 show False by simp
    qed
    then have "filter (\<lambda>x. \<not> P x) xs = xs" by (simp add: filter_id_conv)
    with 0 Cons.prems(2) show ?thesis by simp
  next
    case (Suc m)
    have "\<not> P x"
    proof
      assume "P x"
      then have "P ((x # xs) ! 0)" by simp
      with Cons.prems(3) have "0 = k" by blast
      with Suc show False by simp
    qed
    moreover have "filter (\<lambda>x. \<not> P x) xs = take m xs @ drop (Suc m) xs"
    proof (rule Cons.IH)
      show "m < length xs" using Cons.prems(1) Suc by simp
      show "P (xs ! m)" using Cons.prems(2) Suc by simp
      show "\<forall>j<length xs. P (xs ! j) \<longrightarrow> j = m"
      proof (intro allI impI)
        fix j assume "j < length xs" "P (xs ! j)"
        then have "Suc j < length (x # xs)" "P ((x # xs) ! Suc j)" by simp_all
        with Cons.prems(3) have "Suc j = k" by blast
        with Suc show "j = m" by simp
      qed
    qed
    ultimately show ?thesis using Suc by simp
  qed
qed

lemma findIndex_first:
  "k < length xs \<Longrightarrow> P (xs ! k) \<Longrightarrow> \<forall>j<k. \<not> P (xs ! j) \<Longrightarrow> findIndex P xs = int k"
proof (induction xs arbitrary: k)
  case Nil
  then show ?case by simp
next
  case (Cons x xs)
  show ?case
  proof (cases k)
    case 0
    with Cons.prems show ?thesis by simp
  next
    case (Suc m)
    with Cons.prems have "\<not> P x" by auto
    moreover from Suc Cons.prems have "findIndex P xs = int m"
      by (intro Cons.IH) auto
    ultimately show ?thesis using Suc by simp
  qed
qed

lemma findIndex_none: "\<forall>x\<in>set xs. \<not> P x \<Longrightarrow> findIndex P xs = - 1"
  by (induction xs) simp_all

lemma distinct_only_index:
  assumes "distinct (map g xs)" "k < length xs" "j < length xs" "g (xs ! j) = g (xs ! k)"
  shows "j = k"
proof -
  from assms have "map g xs ! j = map g xs ! k" by simp
  with nth_eq_iff_index_eq[OF assms(1), of j k] assms(2,3) show ?thesis by simp
qed

lemma find_first_index:
  "k < length xs \<Longrightarrow> P (xs ! k) \<Longrightarrow> \<forall>j<k. \<not> P (xs ! j) \<Longrightarrow> find P xs = Some (xs ! k)"
proof (induction xs arbitrary: k)
  case Nil
  then show ?case by simp
next
  case (Cons x xs)
  show ?case
  proof (cases k)
    case 0
    with Cons.prems show ?thesis by simp
  next
    case (Suc m)
    with Cons.prems have "\<not> P x" by auto
    moreover from Suc Cons.prems have "find P xs = Some (xs ! m)"
      by (intro Cons.IH) auto
    ultimately show ?thesis using Suc by simp
  qed
qed


section \<open>Removing from the cart\<close>

text \<open>
  Claim C5. Where the line that \<open>removeFromCart\<close> finds for \<open>productId\<close> (the first one, at
  position \<open>k\<close>) has a quantity above 1, that line's quantity goes down by exactly 1 and
  the cart keeps its length; where its quantity is 1, no line for \<open>productId\<close> is left.
  In a cart with one line per product, as \<open>addToCart\<close> and \<open>removeFromCart\<close> keep it,
  the result is the cart with that one line decremented, respectively taken out.
\<close>

theorem removeFromCart_spec:
  assumes "k < length c" and "id' (c ! k) = productId"
    and "\<forall>j<k. id' (c ! j) \<noteq> productId"
  shows "(1 < quantity (c ! k) \<longrightarrow>
            length (removeFromCart productId c) = length c
            \<and> removeFromCart productId c ! k = (c ! k)\<lparr>quantity := quantity (c ! k) - 1\<rparr>)
       \<and> (quantity (c ! k) = 1 \<longrightarrow> productId \<notin> id' ` set (removeFromCart productId c))
       \<and> ((\<forall>j<length c. id' (c ! j) = productId \<longrightarrow> j = k) \<longrightarrow>
            (1 < quantity (c ! k) \<longrightarrow>
               removeFromCart productId c = c[k := (c ! k)\<lparr>quantity := quantity (c ! k) - 1\<rparr>])
          \<and> (quantity (c ! k) = 1 \<longrightarrow>
               removeFromCart productId c = take k c @ drop (Suc k) c))"
proof -
  have found: "find (\<lambda>item. id' item = productId) c = Some (c ! k)"
    using assms by (intro find_first_index) auto
  have dec: "removeFromCart productId c =
      map (\<lambda>item. if id' item = productId then item\<lparr>quantity := quantity item - 1\<rparr> else item) c"
    if "1 < quantity (c ! k)"
    using that by (simp add: removeFromCart_def found)
  have del: "removeFromCart productId c = filter (\<lambda>item. \<not> id' item = productId) c"
    if "quantity (c ! k) = 1"
    using that by (simp add: removeFromCart_def found)
  show ?thesis
  proof (intro conjI impI)
    assume q: "1 < quantity (c ! k)"
    show "length (removeFromCart productId c) = length c"
      by (simp add: dec[OF q])
    show "removeFromCart productId c ! k = (c ! k)\<lparr>quantity := quantity (c ! k) - 1\<rparr>"
      using assms(1,2) by (simp add: dec[OF q])
  next
    assume q: "quantity (c ! k) = 1"
    show "productId \<notin> id' ` set (removeFromCart productId c)"
      by (auto simp: del[OF q])
  next
    assume u: "\<forall>j<length c. id' (c ! j) = productId \<longrightarrow> j = k" and q: "1 < quantity (c ! k)"
    have "map (\<lambda>item. if id' item = productId then item\<lparr>quantity := quantity item - 1\<rparr> else item) c
          = c[k := (c ! k)\<lparr>quantity := quantity (c ! k) - 1\<rparr>]"
      using assms(1) assms(2) u
      by (rule map_if_only_index[where P = "\<lambda>item. id' item = productId"])
    then show "removeFromCart productId c = c[k := (c ! k)\<lparr>quantity := quantity (c ! k) - 1\<rparr>]"
      by (simp only: dec[OF q])
  next
    assume u: "\<forall>j<length c. id' (c ! j) = productId \<longrightarrow> j = k" and q: "quantity (c ! k) = 1"
    have "filter (\<lambda>item. \<not> id' item = productId) c = take k c @ drop (Suc k) c"
      using assms(1) assms(2) u
      by (rule filter_out_only_index[where P = "\<lambda>item. id' item = productId"])
    then show "removeFromCart productId c = take k c @ drop (Suc k) c"
      by (simp only: del[OF q])
  qed
qed

theorem removeFromCart_spec_witness:
  "removeFromCart 1 [line_of product_A 3, line_of product_B 1]
     = [line_of product_A 2, line_of product_B 1]
   \<and> removeFromCart 2 [line_of product_A 3, line_of product_B 1] = [line_of product_A 3]"
proof -
  let ?c = "[line_of product_A 3, line_of product_B 1]"
  have ids: "id' (line_of product_A 3) = 1" "id' (line_of product_B 1) = 2"
    and qs: "quantity (line_of product_A 3) = 3" "quantity (line_of product_B 1) = 1"
    by (simp_all add: line_of_def product_A_def product_B_def)
  have a: "(0::nat) < length ?c" "id' (?c ! 0) = 1" "\<forall>j<0::nat. id' (?c ! j) \<noteq> 1"
    by (simp_all add: ids)
  have ua: "\<forall>j<length ?c. id' (?c ! j) = 1 \<longrightarrow> j = 0"
    by (simp add: ids All_less_Suc)
  have b: "(1::nat) < length ?c" "id' (?c ! 1) = 2" "\<forall>j<1::nat. id' (?c ! j) \<noteq> 2"
    by (simp_all add: ids)
  have ub: "\<forall>j<length ?c. id' (?c ! j) = 2 \<longrightarrow> j = 1"
    by (simp add: ids All_less_Suc)
  from removeFromCart_spec[OF a] ua qs
  have "removeFromCart 1 ?c = ?c[0 := (?c ! 0)\<lparr>quantity := quantity (?c ! 0) - 1\<rparr>]"
    by simp
  moreover from removeFromCart_spec[OF b] ub qs
  have "removeFromCart 2 ?c = take 1 ?c @ drop (Suc 1) ?c"
    by simp
  ultimately show ?thesis
    by (simp add: line_of_def)
qed

section \<open>One line per product\<close>

text \<open>
  The cart starts empty, and both operations keep the ids of its lines pairwise distinct.
\<close>

lemma addToCart_distinct:
  assumes "distinct (map id' c)"
  shows "distinct (map id' (addToCart product c))"
proof (cases "\<exists>item\<in>set c. id' item = id' product")
  case True
  have "map id' (map (\<lambda>item. if id' item = id' product
                        then item\<lparr>quantity := quantity item + 1\<rparr> else item) c) = map id' c"
    by (induction c) simp_all
  with assms show ?thesis by (simp only: addToCart_present[OF True])
next
  case False
  then have a: "\<forall>item\<in>set c. id' item \<noteq> id' product" by simp
  with assms show ?thesis by (auto simp: addToCart_absent[OF a])
qed

lemma removeFromCart_distinct:
  assumes "distinct (map id' c)"
  shows "distinct (map id' (removeFromCart productId c))"
proof -
  have "map id' (map (\<lambda>item. if id' item = productId
                        then item\<lparr>quantity := quantity item - 1\<rparr> else item) c) = map id' c"
    by (induction c) simp_all
  with assms show ?thesis
    by (auto simp: removeFromCart_def distinct_map_filter simp del: map_map)
qed

lemma distinct_same_key:
  assumes "distinct (map g xs)" "x \<in> set xs" "y \<in> set xs" "g x = g y"
  shows "x = y"
  using assms by (auto simp: distinct_map dest: inj_onD)

lemma well_formed_empty: "well_formed_cart []"
  by (simp add: well_formed_cart_def)

lemma addToCart_well_formed:
  assumes "well_formed_cart c"
  shows "well_formed_cart (addToCart product c)"
proof -
  from assms have d: "distinct (map id' c)" and q: "\<forall>item\<in>set c. 1 \<le> quantity item"
    by (simp_all add: well_formed_cart_def list_all_iff)
  have "\<forall>item\<in>set (addToCart product c). 1 \<le> quantity item"
    using q by (auto simp: addToCart_def split: option.splits)
  with addToCart_distinct[OF d] show ?thesis
    by (simp add: well_formed_cart_def list_all_iff)
qed

lemma removeFromCart_well_formed:
  assumes "well_formed_cart c"
  shows "well_formed_cart (removeFromCart productId c)"
proof -
  from assms have d: "distinct (map id' c)" and q: "\<forall>item\<in>set c. 1 \<le> quantity item"
    by (simp_all add: well_formed_cart_def list_all_iff)
  have "\<forall>item\<in>set (removeFromCart productId c). 1 \<le> quantity item"
  proof (cases "find (\<lambda>item. id' item = productId) c")
    case None
    with q show ?thesis by (simp add: removeFromCart_def)
  next
    case (Some e)
    then have e: "e \<in> set c" "id' e = productId"
      by (auto simp: find_Some_iff)
    show ?thesis
    proof (cases "1 < quantity e")
      case False
      with Some q show ?thesis by (simp add: removeFromCart_def)
    next
      case True
      have dec_ok: "1 \<le> quantity item - 1" if "item \<in> set c" "id' item = productId" for item
      proof -
        from e that have "item = e" by (intro distinct_same_key[OF d]) simp_all
        with True show ?thesis by simp
      qed
      from Some True have "removeFromCart productId c =
          map (\<lambda>item. if id' item = productId then item\<lparr>quantity := quantity item - 1\<rparr>
                        else item) c"
        by (simp add: removeFromCart_def)
      with q dec_ok show ?thesis by auto
    qed
  qed
  with removeFromCart_distinct[OF d] show ?thesis
    by (simp add: well_formed_cart_def list_all_iff)
qed


section \<open>The draft order of the dashboard\<close>

lemma handleAdd_blocked:
  assumes "\<not> truthy_number (selectedProduct st) \<or> selectedQuantity st \<le> 0"
  shows "handleAddProductToOrder st = st"
  using assms by (auto simp: handleAddProductToOrder_def)

lemma handleAdd_existing:
  assumes sel: "selectedProduct st = Some p" "p \<noteq> 0" "0 < selectedQuantity st"
    and k: "k < length (form_items (newOrder st))"
      "req_productId (form_items (newOrder st) ! k) = p"
    and first: "\<forall>j<k. req_productId (form_items (newOrder st) ! j) \<noteq> p"
  shows "form_items (newOrder (handleAddProductToOrder st)) =
           (form_items (newOrder st))
             [k := (form_items (newOrder st) ! k)
                     \<lparr>req_quantity := req_quantity (form_items (newOrder st) ! k)
                                      + selectedQuantity st\<rparr>]"
proof -
  have "findIndex (\<lambda>item. req_productId item = p) (form_items (newOrder st)) = int k"
    using k first by (intro findIndex_first) auto
  with sel show ?thesis
    by (simp add: handleAddProductToOrder_def Let_def)
qed

lemma handleAdd_new:
  assumes sel: "selectedProduct st = Some p" "p \<noteq> 0" "0 < selectedQuantity st"
    and new: "\<forall>item\<in>set (form_items (newOrder st)). req_productId item \<noteq> p"
  shows "form_items (newOrder (handleAddProductToOrder st)) =
           form_items (newOrder st) @ [\<lparr>req_productId = p, req_quantity = selectedQuantity st\<rparr>]"
proof -
  have "findIndex (\<lambda>item. req_productId item = p) (form_items (newOrder st)) = - 1"
    using new by (intro findIndex_none) auto
  with sel show ?thesis
    by (simp add: handleAddProductToOrder_def Let_def)
qed

lemma distinct_first_index:
  assumes "distinct (map g xs)" "k < length xs"
  shows "\<forall>j<k. g (xs ! j) \<noteq> g (xs ! k)"
proof (intro allI impI)
  fix j assume "j < k"
  with assms(2) have "j < length xs" "j \<noteq> k" by simp_all
  with distinct_only_index[OF assms(1) assms(2)] show "g (xs ! j) \<noteq> g (xs ! k)" by blast
qed

lemma handleAdd_distinct:
  assumes d: "distinct (map req_productId (form_items (newOrder st)))"
  shows "distinct (map req_productId (form_items (newOrder (handleAddProductToOrder st))))"
proof (cases "\<not> truthy_number (selectedProduct st) \<or> selectedQuantity st \<le> 0")
  case True
  then show ?thesis by (simp add: handleAdd_blocked d)
next
  case False
  then obtain p where sel: "selectedProduct st = Some p" "p \<noteq> 0" "0 < selectedQuantity st"
    by (cases "selectedProduct st") auto
  let ?its = "form_items (newOrder st)"
  show ?thesis
  proof (cases "\<forall>item\<in>set ?its. req_productId item \<noteq> p")
    case True
    with d show ?thesis by (auto simp: handleAdd_new[OF sel True])
  next
    case False
    then obtain k where k: "k < length ?its" "req_productId (?its ! k) = p"
      by (auto simp: in_set_conv_nth)
    from distinct_first_index[OF d k(1)] k(2)
    have first: "\<forall>j<k. req_productId (?its ! j) \<noteq> p" by simp
    have "map req_productId (?its[k := (?its ! k)\<lparr>req_quantity := req_quantity (?its ! k)
            + selectedQuantity st\<rparr>]) = map req_productId ?its"
      using k(1) by (simp add: map_update list_update_same_conv)
    with d show ?thesis by (simp add: handleAdd_existing[OF sel k first])
  qed
qed

text \<open>
  Claim C9. For every draft item list with pairwise distinct product ids,
  \<open>handleAddProductToOrder\<close> keeps the ids pairwise distinct; when a product is selected
  with a positive quantity and already has an entry, that entry's quantity grows by the
  selected quantity and nothing else changes, no entry being added.
  \<open>handleRemoveProductFromOrder\<close> keeps the ids distinct as well and takes the whole entry
  of the given product out of the list, whatever its quantity.
\<close>

theorem draft_items_distinct:
  assumes d: "distinct (map req_productId (form_items (newOrder st)))"
  shows "distinct (map req_productId (form_items (newOrder (handleAddProductToOrder st))))
     \<and> (selectedProduct st = Some p \<and> p \<noteq> 0 \<and> 0 < selectedQuantity st
          \<and> k < length (form_items (newOrder st))
          \<and> req_productId (form_items (newOrder st) ! k) = p \<longrightarrow>
        form_items (newOrder (handleAddProductToOrder st)) =
           (form_items (newOrder st))
             [k := (form_items (newOrder st) ! k)
                     \<lparr>req_quantity := req_quantity (form_items (newOrder st) ! k)
                                      + selectedQuantity st\<rparr>])
     \<and> distinct (map req_productId
                   (form_items (newOrder (handleRemoveProductFromOrder productId st))))
     \<and> productId \<notin> req_productId `
          set (form_items (newOrder (handleRemoveProductFromOrder productId st)))
     \<and> (i < length (form_items (newOrder st))
          \<and> req_productId (form_items (newOrder st) ! i) = productId \<longrightarrow>
        form_items (newOrder (handleRemoveProductFromOrder productId st)) =
          take i (form_items (newOrder st)) @ drop (Suc i) (form_items (newOrder st)))"
proof (intro conjI impI)
  show "distinct (map req_productId (form_items (newOrder (handleAddProductToOrder st))))"
    by (rule handleAdd_distinct[OF d])
next
  assume a: "selectedProduct st = Some p \<and> p \<noteq> 0 \<and> 0 < selectedQuantity st
          \<and> k < length (form_items (newOrder st))
          \<and> req_productId (form_items (newOrder st) ! k) = p"
  then have k: "k < length (form_items (newOrder st))" by simp
  from distinct_first_index[OF d k] a
  have "\<forall>j<k. req_productId (form_items (newOrder st) ! j) \<noteq> p" by simp
  with a show "form_items (newOrder (handleAddProductToOrder st)) =
           (form_items (newOrder st))
             [k := (form_items (newOrder st) ! k)
                     \<lparr>req_quantity := req_quantity (form_items (newOrder st) ! k)
                                      + selectedQuantity st\<rparr>]"
    by (intro handleAdd_existing) simp_all
next
  show "distinct (map req_productId
                   (form_items (newOrder (handleRemoveProductFromOrder productId st))))"
    using d by (simp add: handleRemoveProductFromOrder_def distinct_map_filter)
next
  show "productId \<notin> req_productId `
          set (form_items (newOrder (handleRemoveProductFromOrder productId st)))"
    by (auto simp: handleRemoveProductFromOrder_def)
next
  assume a: "i < length (form_items (newOrder st))
          \<and> req_productId (form_items (newOrder st) ! i) = productId"
  then have i: "i < length (form_items (newOrder st))"
    and p: "req_productId (form_items (newOrder st) ! i) = productId" by simp_all
  have u: "\<forall>j<length (form_items (newOrder st)).
             req_productId (form_items (newOrder st) ! j) = productId \<longrightarrow> j = i"
    using distinct_only_index[OF d i] p by simp
  have "filter (\<lambda>item. \<not> req_productId item = productId) (form_items (newOrder st))
        = take i (form_items (newOrder st)) @ drop (Suc i) (form_items (newOrder st))"
    using i p u by (rule filter_out_only_index[where P = "\<lambda>item. req_productId item = productId"])
  then show "form_items (newOrder (handleRemoveProductFromOrder productId st)) =
          take i (form_items (newOrder st)) @ drop (Suc i) (form_items (newOrder st))"
    by (simp add: handleRemoveProductFromOrder_def)
qed

theorem draft_items_distinct_witness:
  "distinct (map req_productId (form_items (newOrder draft_example)))
   \<and> form_items (newOrder (handleAddProductToOrder draft_example))
       = [\<lparr>req_productId = 1, req_quantity = 2\<rparr>, \<lparr>req_productId = 2, req_quantity = 4\<rparr>]
   \<and> form_items (newOrder (handleRemoveProductFromOrder 1 draft_example))
       = [\<lparr>req_productId = 2, req_quantity = 1\<rparr>]"
proof -
  have its: "form_items (newOrder draft_example)
      = [\<lparr>req_productId = 1, req_quantity = 2\<rparr>, \<lparr>req_productId = 2, req_quantity = 1\<rparr>]"
    and sel: "selectedProduct draft_example = Some 2" "selectedQuantity draft_example = 3"
    by (simp_all add: draft_example_def)
  have d: "distinct (map req_productId (form_items (newOrder draft_example)))"
    by (simp add: its)
  from draft_items_distinct[OF d, of 2 1 1 0] its sel d show ?thesis
    by simp
qed


section \<open>The status sequence\<close>

text \<open>
  Claim C6. The status that the quick status update moves an order to is the successor in
  the sequence new, preparing, ready, delivered, paid: for a status with a successor the
  handler sends exactly one request, the update of the order to that successor (for
  \<open>new\<close>, to \<open>preparing\<close>), and puts the order the server returns in the place of the old
  one; \<open>paid\<close>, like every string outside the sequence, has no successor, and the handler
  then sends no request and leaves the page as it is.
\<close>

theorem status_successor:
  "quick_next_status s = successor_in status_sequence s
   \<and> quick_next_status ''new'' = Some ''preparing''
   \<and> quick_next_status ''preparing'' = Some ''ready''
   \<and> quick_next_status ''ready'' = Some ''delivered''
   \<and> quick_next_status ''delivered'' = Some ''paid''
   \<and> quick_next_status ''paid'' = None
   \<and> (quick_next_status s = Some n \<longrightarrow>
        api_calls (snd (handleQuickStatusUpdate updated orderId s st))
          = [OrdersUpdateStatus orderId n])
   \<and> api_calls (snd (handleQuickStatusUpdate updated orderId ''new'' st))
          = [OrdersUpdateStatus orderId ''preparing'']
   \<and> (quick_next_status s = Some n \<and> updated = Resolved (Some res) \<longrightarrow>
        orders (fst (handleQuickStatusUpdate updated orderId s st))
          = map (\<lambda>order. if order_id order = orderId then res else order) (orders st))
   \<and> (quick_next_status s = None \<longrightarrow> handleQuickStatusUpdate updated orderId s st = (st, []))
   \<and> handleQuickStatusUpdate updated orderId ''paid'' st = (st, [])"
proof (intro conjI impI)
  show "quick_next_status s = successor_in status_sequence s"
    by (simp add: quick_next_status_def status_sequence_def)
next
  assume "quick_next_status s = Some n"
  then show "api_calls (snd (handleQuickStatusUpdate updated orderId s st))
          = [OrdersUpdateStatus orderId n]"
    by (cases updated; cases "fst (executeApiCall updated st)")
       (auto simp: handleQuickStatusUpdate_def executeApiCall_def split_def Let_def
             split: option.splits)
next
  show "api_calls (snd (handleQuickStatusUpdate updated orderId ''new'' st))
          = [OrdersUpdateStatus orderId ''preparing'']"
    by (cases updated)
       (auto simp: handleQuickStatusUpdate_def quick_next_status_def executeApiCall_def
             split: option.splits)
next
  assume "quick_next_status s = Some n \<and> updated = Resolved (Some res)"
  then show "orders (fst (handleQuickStatusUpdate updated orderId s st))
          = map (\<lambda>order. if order_id order = orderId then res else order) (orders st)"
    by (simp add: handleQuickStatusUpdate_def executeApiCall_def)
next
  assume "quick_next_status s = None"
  then show "handleQuickStatusUpdate updated orderId s st = (st, [])"
    by (simp add: handleQuickStatusUpdate_def)
qed (simp_all add: quick_next_status_def handleQuickStatusUpdate_def)

theorem status_successor_witness:
  "quick_next_status ''new'' = Some ''preparing''
   \<and> api_calls (snd (handleQuickStatusUpdate
          (Resolved (Some (order_example\<lparr>status := ''preparing''\<rparr>))) 17 ''new'' orders_example))
       = [OrdersUpdateStatus 17 ''preparing'']
   \<and> orders (fst (handleQuickStatusUpdate
          (Resolved (Some (order_example\<lparr>status := ''preparing''\<rparr>))) 17 ''new'' orders_example))
       = [order_example\<lparr>status := ''preparing''\<rparr>]
   \<and> handleQuickStatusUpdate
         (Resolved (Some (order_example\<lparr>status := ''preparing''\<rparr>))) 17 ''paid'' orders_example
       = (orders_example, [])"
proof -
  have n: "quick_next_status ''new'' = Some ''preparing''"
    by (simp add: quick_next_status_def)
  have o: "orders orders_example = [order_example]" "order_id order_example = 17"
    by (simp_all add: orders_example_def order_example_def)
  from status_successor[of "''new''" "''preparing''"
      "Resolved (Some (order_example\<lparr>status := ''preparing''\<rparr>))" 17 orders_example
      "order_example\<lparr>status := ''preparing''\<rparr>"] n o
  show ?thesis by simp
qed


section \<open>Unauthorized responses\<close>

text \<open>
  Where \<open>window\<close> is undefined, and for an error without a response of status 401, the
  interceptor leaves the browser as it is.
\<close>

lemma interceptor_without_window:
  "\<not> window_defined b \<Longrightarrow> fst (response_error_interceptor err b) = b"
  by (simp add: response_error_interceptor_def removeToken_def)

lemma interceptor_other_status:
  "\<forall>r. response err = Some r \<longrightarrow> http_status r \<noteq> 401 \<Longrightarrow>
   fst (response_error_interceptor err b) = b"
  by (cases "response err") (simp_all add: response_error_interceptor_def)

text \<open>
  Claim C7. In a browser, for every error whose response has status 401, whatever its
  endpoint, the response interceptor removes the stored token and assigns the login
  route to \<open>window.location.href\<close> exactly once; it rejects with the same error.
\<close>

theorem unauthorized_response:
  assumes "response err = Some r" and "http_status r = 401" and "window_defined b"
  shows "getToken (fst (response_error_interceptor err b)) = None
     \<and> localStorage (fst (response_error_interceptor err b))
         = (localStorage b)(''auth_token'' := None)
     \<and> href_assignments (fst (response_error_interceptor err b))
         = href_assignments b @ [''/login'']
     \<and> snd (response_error_interceptor err b) = Rejected (AxiosErr err)"
  using assms
  by (simp add: response_error_interceptor_def removeToken_def getToken_def Let_def)

theorem unauthorized_response_witness:
  "getToken browser_example = Some ''abc''
   \<and> getToken (fst (response_error_interceptor unauthorized_example browser_example)) = None
   \<and> href_assignments (fst (response_error_interceptor unauthorized_example browser_example))
       = [''/login'']"
proof -
  have r: "response unauthorized_example = Some \<lparr>http_status = 401, data = FalsyData\<rparr>"
    by (simp add: unauthorized_example_def)
  have s: "http_status \<lparr>http_status = 401, data = FalsyData\<rparr> = 401" by simp
  have w: "window_defined browser_example" by (simp add: browser_example_def)
  have before: "getToken browser_example = Some ''abc''" "href_assignments browser_example = []"
    by (simp_all add: browser_example_def getToken_def)
  from unauthorized_response[OF r s w] before show ?thesis
    by simp
qed


section \<open>Error messages\<close>

text \<open>The transport marker is looked at before the response.\<close>

lemma handleApiError_network_error:
  "message e = ''Network Error'' \<Longrightarrow>
   handleApiError (AxiosErr e)
     = ''Cannot connect to the server. Please check your connection or try again later.''"
  by (simp add: handleApiError_def)

text \<open>
  Claim C8. For an error response without a structured error body (and a message other
  than the transport marker \<open>Network Error\<close>, which is looked at first), \<open>handleApiError\<close>
  returns a message fixed by the status code alone: one each for 400, 401, 403, 404 and
  500, and \<open>Error: \<close> followed by the code for any other status. A thrown value that is no
  Axios error is mapped to its message when it is an \<open>Error\<close>, and to a fixed fallback
  otherwise; an Axios error with neither response nor request is mapped to its message too.
\<close>

theorem handleApiError_bare_status:
  "(message e \<noteq> ''Network Error'' \<and> response e = Some r \<and> no_error_body (data r) \<longrightarrow>
      (http_status r = 400 \<longrightarrow>
         handleApiError (AxiosErr e) = ''Bad request. Please check your input.'')
    \<and> (http_status r = 401 \<longrightarrow>
         handleApiError (AxiosErr e) = ''Unauthorized. Please log in again.'')
    \<and> (http_status r = 403 \<longrightarrow>
         handleApiError (AxiosErr e)
           = ''Forbidden. You do not have permission to access this resource.'')
    \<and> (http_status r = 404 \<longrightarrow> handleApiError (AxiosErr e) = ''Resource not found.'')
    \<and> (http_status r = 500 \<longrightarrow>
         handleApiError (AxiosErr e) = ''Server error. Please try again later.'')
    \<and> (http_status r \<noteq> 400 \<and> http_status r \<noteq> 401 \<and> http_status r \<noteq> 403
         \<and> http_status r \<noteq> 404 \<and> http_status r \<noteq> 500 \<longrightarrow>
         handleApiError (AxiosErr e) = ''Error: '' @ number_to_string (http_status r)))
   \<and> handleApiError (ErrorObject m) = m
   \<and> handleApiError OtherValue = ''An unknown error occurred''
   \<and> (message e \<noteq> ''Network Error'' \<and> response e = None \<and> \<not> request e \<longrightarrow>
        handleApiError (AxiosErr e) = message e)"
  by (cases "data r")
     (auto simp: handleApiError_def no_error_body_def split: option.splits details.splits)

theorem handleApiError_bare_status_witness:
  "handleApiError (AxiosErr teapot_example) = ''Error: 418''
   \<and> handleApiError (AxiosErr (teapot_example\<lparr>response := Some \<lparr>http_status = 404, data = FalsyData\<rparr>\<rparr>))
       = ''Resource not found.''"
proof -
  have n: "number_to_string 418 = ''418''" by code_simp
  from handleApiError_bare_status[of teapot_example "\<lparr>http_status = 418, data = TruthyData None None\<rparr>"]
  have "handleApiError (AxiosErr teapot_example) = ''Error: 418''"
    by (simp add: teapot_example_def no_error_body_def n)
  moreover
  from handleApiError_bare_status[of "teapot_example\<lparr>response := Some \<lparr>http_status = 404, data = FalsyData\<rparr>\<rparr>"
      "\<lparr>http_status = 404, data = FalsyData\<rparr>"]
  have "handleApiError (AxiosErr (teapot_example\<lparr>response := Some \<lparr>http_status = 404, data = FalsyData\<rparr>\<rparr>))
       = ''Resource not found.''"
    by (simp add: teapot_example_def no_error_body_def)
  ultimately show ?thesis by simp
qed


section \<open>Checkout\<close>

text \<open>A name is blank for the checkout exactly when it consists of white space.\<close>

lemma trim_blank: "trim s = [] \<longleftrightarrow> list_all js_whitespace s"
proof -
  have "trim s = [] \<longleftrightarrow> (\<forall>c\<in>set (dropWhile js_whitespace s). js_whitespace c)"
    by (simp add: trim_def dropWhile_eq_Nil_conv)
  also have "\<dots> \<longleftrightarrow> dropWhile js_whitespace s = []"
  proof
    assume a: "\<forall>c\<in>set (dropWhile js_whitespace s). js_whitespace c"
    show "dropWhile js_whitespace s = []"
    proof (rule ccontr)
      assume n: "dropWhile js_whitespace s \<noteq> []"
      then have "\<not> js_whitespace (hd (dropWhile js_whitespace s))" by (rule hd_dropWhile)
      moreover from n have "hd (dropWhile js_whitespace s) \<in> set (dropWhile js_whitespace s)"
        by simp
      ultimately show False using a by blast
    qed
  next
    assume e: "dropWhile js_whitespace s = []"
    show "\<forall>c\<in>set (dropWhile js_whitespace s). js_whitespace c"
      unfolding e by simp
  qed
  also have "\<dots> \<longleftrightarrow> list_all js_whitespace s"
    by (simp add: dropWhile_eq_Nil_conv list_all_iff)
  finally show ?thesis .
qed

text \<open>
  Claim C2. When the cart is empty, or no table is selected, or the guest name is empty
  after trimming, \<open>handleCheckout\<close> hands no request to the API client and schedules no
  navigation, and the cart, like the rest of the page state, is as before.
\<close>

theorem checkout_blocked:
  assumes "cart st = [] \<or> \<not> truthy_string (selectedTable st) \<or> trim (cartCustomerName st) = []"
  shows "api_calls (snd (handleCheckout created st)) = []
     \<and> navigations (snd (handleCheckout created st)) = []
     \<and> cart (fst (handleCheckout created st)) = cart st
     \<and> fst (handleCheckout created st) = st"
  using assms by (auto simp: handleCheckout_def)

theorem checkout_blocked_witness:
  "api_calls (snd (handleCheckout (Resolved (Some order_example)) (checkout_example\<lparr>cart := []\<rparr>))) = []
   \<and> api_calls (snd (handleCheckout (Resolved (Some order_example))
                      (checkout_example\<lparr>selectedTable := None\<rparr>))) = []
   \<and> trim ''  '' = []
   \<and> api_calls (snd (handleCheckout (Resolved (Some order_example))
                      (checkout_example\<lparr>cartCustomerName := ''  ''\<rparr>))) = []
   \<and> cart (fst (handleCheckout (Resolved (Some order_example))
                  (checkout_example\<lparr>cartCustomerName := ''  ''\<rparr>)))
       = [line_of product_A 2, line_of product_B 1]"
proof -
  have t: "trim ''  '' = []" by (simp add: trim_def js_whitespace_def)
  from checkout_blocked[of "checkout_example\<lparr>cart := []\<rparr>" "Resolved (Some order_example)"]
  have 1: "api_calls (snd (handleCheckout (Resolved (Some order_example))
             (checkout_example\<lparr>cart := []\<rparr>))) = []"
    by simp
  from checkout_blocked[of "checkout_example\<lparr>selectedTable := None\<rparr>" "Resolved (Some order_example)"]
  have 2: "api_calls (snd (handleCheckout (Resolved (Some order_example))
             (checkout_example\<lparr>selectedTable := None\<rparr>))) = []"
    by simp
  from checkout_blocked[of "checkout_example\<lparr>cartCustomerName := ''  ''\<rparr>" "Resolved (Some order_example)"] t
  have 3: "api_calls (snd (handleCheckout (Resolved (Some order_example))
             (checkout_example\<lparr>cartCustomerName := ''  ''\<rparr>))) = []"
    "cart (fst (handleCheckout (Resolved (Some order_example))
                  (checkout_example\<lparr>cartCustomerName := ''  ''\<rparr>)))
       = cart checkout_example"
    by simp_all
  from 1 2 3 t show ?thesis by (simp add: checkout_example_def)
qed

lemma checkout_passed:
  assumes "truthy_string (selectedTable st)" "cart st \<noteq> []" "trim (cartCustomerName st) \<noteq> []"
  shows "handleCheckout created st =
     (fst (handleCheckout_settled (Resolved (fst (executeApiCall created (st\<lparr>isPlacingOrder := True\<rparr>))))
             (snd (executeApiCall created (st\<lparr>isPlacingOrder := True\<rparr>)))),
      OrdersCreate
        \<lparr>req_tableId_source = template_string (selectedTable st),
         req_guestName = trim (cartCustomerName st),
         req_items = map (\<lambda>item. \<lparr>req_productId = id' item, req_quantity = quantity item\<rparr>) (cart st)\<rparr>
      # snd (handleCheckout_settled (Resolved (fst (executeApiCall created (st\<lparr>isPlacingOrder := True\<rparr>))))
             (snd (executeApiCall created (st\<lparr>isPlacingOrder := True\<rparr>)))))"
  using assms by (simp add: handleCheckout_def Let_def split_def)

text \<open>
  Claim C1, as the code has it. When the checks pass and the order creation resolves to
  a falsy result, the cart is cleared, the toast is the destructive \<open>Order Submitted\<close> one
  and not the success toast, and the navigation goes to the same table route after the
  same 1000 ms as on success.
\<close>

theorem checkout_failure:
  assumes "truthy_string (selectedTable st)" "cart st \<noteq> []" "trim (cartCustomerName st) \<noteq> []"
  shows "cart (fst (handleCheckout (Resolved None) st)) = []
     \<and> map toast_title (toasts (snd (handleCheckout (Resolved None) st))) = [''Order Submitted'']
     \<and> map toast_variant_of (toasts (snd (handleCheckout (Resolved None) st))) = [Destructive]
     \<and> navigations (snd (handleCheckout (Resolved None) st))
         = [(1000, ''/table-orders/'' @ template_string (selectedTable st))]
     \<and> map toast_title (toasts (snd (handleCheckout (Resolved (Some order)) st)))
         = [''Order Placed Successfully!'']
     \<and> map toast_variant_of (toasts (snd (handleCheckout (Resolved (Some order)) st)))
         = [DefaultVariant]
     \<and> navigations (snd (handleCheckout (Resolved (Some order)) st))
         = [(1000, ''/table-orders/'' @ template_string (selectedTable st))]"
  by (simp add: checkout_passed[OF assms] executeApiCall_def handleCheckout_settled_def Let_def)

theorem checkout_failure_witness:
  "cart (fst (handleCheckout (Resolved None) checkout_example)) = []
   \<and> map toast_title (toasts (snd (handleCheckout (Resolved None) checkout_example)))
       = [''Order Submitted'']
   \<and> navigations (snd (handleCheckout (Resolved None) checkout_example))
       = [(1000, ''/table-orders/5'')]
   \<and> navigations (snd (handleCheckout (Resolved (Some order_example)) checkout_example))
       = [(1000, ''/table-orders/5'')]"
proof -
  have g: "truthy_string (selectedTable checkout_example)" "cart checkout_example \<noteq> []"
    "trim (cartCustomerName checkout_example) \<noteq> []"
    by (simp_all add: checkout_example_def trim_def js_whitespace_def)
  have t: "template_string (selectedTable checkout_example) = ''5''"
    by (simp add: checkout_example_def)
  from checkout_failure[OF g, of order_example] t
  show ?thesis by simp
qed

text \<open>
  The delay after an order creation that resolved to \<open>null\<close> is not longer than after a
  successful one: for the example guest both are 1000 ms.
\<close>

theorem checkout_delay_counterexample:
  "navigations (snd (handleCheckout (Resolved None) checkout_example))
     = [(1000, ''/table-orders/5'')]
   \<and> navigations (snd (handleCheckout (Resolved (Some order_example)) checkout_example))
     = [(1000, ''/table-orders/5'')]
   \<and> \<not> fst (hd (navigations (snd (handleCheckout (Resolved (Some order_example)) checkout_example))))
       < fst (hd (navigations (snd (handleCheckout (Resolved None) checkout_example))))"
  by (simp add: handleCheckout_def checkout_example_def trim_def js_whitespace_def
      executeApiCall_def handleCheckout_settled_def Let_def)

end
